theory Spec2Isabelle
  imports Main
begin

section \<open>JavaScript values used by the two components\<close>

text \<open>
  Row and column numbers and user ids are JavaScript numbers that only ever hold integers
  here; they are modelled as \<open>int\<close>. A JavaScript string is modelled as a list of
  characters with code units 0..255. \<open>null\<close> and \<open>undefined\<close> are \<open>None\<close>.
\<close>

definition startsWith :: "string \<Rightarrow> string \<Rightarrow> bool" where
  \<comment> \<open>\<open>s.startsWith(p)\<close>\<close>
  "startsWith s p = (take (length p) s = p)"

definition orEmpty :: "string option \<Rightarrow> string" where
  \<comment> \<open>\<open>x || ''\<close>: null, undefined and the empty string all give the empty string\<close>
  "orEmpty x = (case x of None \<Rightarrow> '''' | Some v \<Rightarrow> if v = '''' then '''' else v)"

subsection \<open>Rendering a number in a template string\<close>

definition digitChar :: "nat \<Rightarrow> char" where
  "digitChar d = ''0123456789'' ! d"

fun digits :: "nat \<Rightarrow> string" where
  "digits n = (if n < 10 then [digitChar n] else digits (n div 10) @ [digitChar (n mod 10)])"

declare digits.simps [simp del]

definition numToString :: "int \<Rightarrow> string" where
  \<comment> \<open>\<open>`${i}`\<close> for an integer \<open>i\<close> (plain decimal, which JavaScript uses below \<open>10^21\<close>)\<close>
  "numToString i = (if i < 0 then CHR ''-'' # digits (nat (- i)) else digits (nat i))"

subsection \<open>\<open>isNaN(Number(s))\<close> on a string\<close>

text \<open>
  \<open>Number(s)\<close> is NaN exactly when \<open>s\<close> does not match the grammar
  \<open>StringNumericLiteral\<close> of ECMAScript: optional white space around nothing at all, a signed
  decimal literal (with \<open>Infinity\<close>, fraction and exponent), or an unsigned binary, octal or
  hexadecimal integer literal.
\<close>

definition isStrWhiteSpaceChar :: "char \<Rightarrow> bool" where
  "isStrWhiteSpaceChar ch =
     (ch \<in> set [CHR 0x09, CHR 0x0A, CHR 0x0B, CHR 0x0C, CHR 0x0D, CHR 0x20, CHR 0xA0])"

definition isDecimalDigit :: "char \<Rightarrow> bool" where
  "isDecimalDigit ch = (ch \<in> set ''0123456789'')"

definition isBinaryDigit :: "char \<Rightarrow> bool" where
  "isBinaryDigit ch = (ch \<in> set ''01'')"

definition isOctalDigit :: "char \<Rightarrow> bool" where
  "isOctalDigit ch = (ch \<in> set ''01234567'')"

definition isHexDigit :: "char \<Rightarrow> bool" where
  "isHexDigit ch = (ch \<in> set ''0123456789abcdefABCDEF'')"

definition trimString :: "string \<Rightarrow> string" where
  "trimString s = rev (dropWhile isStrWhiteSpaceChar (rev (dropWhile isStrWhiteSpaceChar s)))"

definition isDecimalDigits :: "string \<Rightarrow> bool" where
  "isDecimalDigits s = (s \<noteq> [] \<and> list_all isDecimalDigit s)"

definition isSignedInteger :: "string \<Rightarrow> bool" where
  "isSignedInteger s =
     (case s of [] \<Rightarrow> False
      | ch # r \<Rightarrow> if ch = CHR ''+'' \<or> ch = CHR ''-'' then isDecimalDigits r
                  else isDecimalDigits s)"

definition isExponentPartOpt :: "string \<Rightarrow> bool" where
  "isExponentPartOpt s =
     (case s of [] \<Rightarrow> True
      | ch # r \<Rightarrow> (ch = CHR ''e'' \<or> ch = CHR ''E'') \<and> isSignedInteger r)"

definition isStrUnsignedDecimalLiteral :: "string \<Rightarrow> bool" where
  "isStrUnsignedDecimalLiteral s =
     (s = ''Infinity'' \<or>
      (let ds = takeWhile isDecimalDigit s; r = dropWhile isDecimalDigit s
       in case r of
            [] \<Rightarrow> ds \<noteq> []
          | ch # r' \<Rightarrow>
              if ch = CHR ''.''
              then (let fs = takeWhile isDecimalDigit r'; r'' = dropWhile isDecimalDigit r'
                    in (ds \<noteq> [] \<or> fs \<noteq> []) \<and> isExponentPartOpt r'')
              else ds \<noteq> [] \<and> isExponentPartOpt r))"

definition isStrDecimalLiteral :: "string \<Rightarrow> bool" where
  "isStrDecimalLiteral s =
     (case s of [] \<Rightarrow> False
      | ch # r \<Rightarrow> if ch = CHR ''+'' \<or> ch = CHR ''-'' then isStrUnsignedDecimalLiteral r
                  else isStrUnsignedDecimalLiteral s)"

definition isNonDecimalIntegerLiteral :: "string \<Rightarrow> bool" where
  "isNonDecimalIntegerLiteral s =
     (case s of
        z # p # r \<Rightarrow>
          z = CHR ''0'' \<and> r \<noteq> [] \<and>
          (((p = CHR ''b'' \<or> p = CHR ''B'') \<and> list_all isBinaryDigit r) \<or>
           ((p = CHR ''o'' \<or> p = CHR ''O'') \<and> list_all isOctalDigit r) \<or>
           ((p = CHR ''x'' \<or> p = CHR ''X'') \<and> list_all isHexDigit r))
      | _ \<Rightarrow> False)"

definition isStringNumericLiteral :: "string \<Rightarrow> bool" where
  "isStringNumericLiteral s =
     (let t = trimString s
      in t = [] \<or> isStrDecimalLiteral t \<or> isNonDecimalIntegerLiteral t)"

definition isNaN_Number :: "string \<Rightarrow> bool" where
  \<comment> \<open>\<open>isNaN(Number(s))\<close>\<close>
  "isNaN_Number s = (\<not> isStringNumericLiteral s)"

definition jsRem :: "int \<Rightarrow> int \<Rightarrow> int" where
  \<comment> \<open>\<open>a % b\<close> on integers: the sign follows the dividend\<close>
  "jsRem a b = sgn a * (\<bar>a\<bar> mod \<bar>b\<bar>)"


section \<open>GoogleSheetsGrid.tsx\<close>

subsection \<open>Data\<close>

type_synonym formatting = "(string \<times> string) list"

record Cell =
  cell_id :: "int option"
  row :: int
  column :: int
  cvalue :: "string option"
  formula :: "string option"
  dataType :: "string option"
  formatting :: "formatting option"

record Selection =
  startRow :: int
  startCol :: int
  endRow :: int
  endCol :: int

definition ROWS :: int where "ROWS = 1000"
definition COLS :: int where "COLS = 26"

record KeyboardEvent =
  key :: string
  shiftKey :: bool
  ctrlKey :: bool
  metaKey :: bool

text \<open>
  The props and the \<open>useState\<close> cells a handler of the component reads. \<open>saveOk\<close> records
  whether the persistence endpoint answers a cell PUT with \<open>response.ok\<close>.
\<close>

record GridState =
  cells :: "Cell list"
  selectedCell :: "(int \<times> int) option"
  isEditing :: bool
  selection :: "Selection option"
  isSelecting :: bool
  isDragging :: bool
  dragStart :: "(int \<times> int) option"
  editingValue :: string
  clipboard :: "Cell list"
  saveOk :: bool

text \<open>
  A handler is a function of the render whose closure it holds, and issues calls: state
  setters of the component, callbacks of the owner, mutations, toasts. Which render that
  is for the keydown listener is settled further down. The calls a handler issues, in
  order:
\<close>

datatype action =
    PreventDefault
  | CellSelect int int
  | EditingChange bool
  | Mutate int int string
  | SetEditingValue string
  | SetClipboard "Cell list"
  | SetSelection "Selection option"
  | SetIsSelecting bool
  | SetDragStart "(int \<times> int) option"
  | SetIsDragging bool
  | StopPropagation
  | FocusInput
  | Toast string string

subsection \<open>The cell map and the cell mutation\<close>

definition cellKey :: "int \<Rightarrow> int \<Rightarrow> string" where
  \<comment> \<open>\<open>`${row}-${col}`\<close>\<close>
  "cellKey r c = numToString r @ ''-'' @ numToString c"

definition cellMap :: "Cell list \<Rightarrow> (string \<rightharpoonup> Cell)" where
  "cellMap cs = fold (\<lambda>cell m. m(cellKey (row cell) (column cell) \<mapsto> cell)) cs Map.empty"

definition getCellValue :: "Cell list \<Rightarrow> int \<Rightarrow> int \<Rightarrow> string" where
  "getCellValue cs r c = orEmpty (Option.bind (cellMap cs (cellKey r c)) cvalue)"

record CellBody =
  b_value :: string
  b_dataType :: string
  b_formula :: "string option"

definition mutationBody :: "string \<Rightarrow> CellBody" where
  \<comment> \<open>the JSON body of the PUT request in \<open>saveCellMutation.mutationFn\<close>\<close>
  "mutationBody v =
     \<lparr>b_value = v,
      b_dataType = (if startsWith v ''='' then ''formula''
                    else if isNaN_Number v then ''text'' else ''number''),
      b_formula = (if startsWith v ''='' then Some v else None)\<rparr>"

text \<open>
  Modelled from the spec: the persistence endpoint behind
  \<open>PUT /api/sheets/:sheetId/cells/:row/:column\<close> and the refetch of the \<open>cells\<close> prop are
  not part of the client sources. Following the interface
  \<open>writeCell(sheetId, row, column, {value, dataType, formula}) \<rightarrow> Cell\<close> and
  \<open>readCells(sheetId)\<close>, an accepted write stores the three fields of the body in the cell
  at \<open>(row, column)\<close>, creating the cell when there is none.
\<close>

definition writeCell :: "Cell list \<Rightarrow> int \<Rightarrow> int \<Rightarrow> CellBody \<Rightarrow> Cell list" where
  "writeCell cs r c b =
     (if list_ex (\<lambda>cell. row cell = r \<and> column cell = c) cs
      then map (\<lambda>cell. if row cell = r \<and> column cell = c
                        then cell\<lparr>cvalue := Some (b_value b), formula := b_formula b,
                                  dataType := Some (b_dataType b)\<rparr>
                        else cell) cs
      else cs @ [\<lparr>cell_id = None, row = r, column = c, cvalue = Some (b_value b),
                  formula = b_formula b, dataType = Some (b_dataType b),
                  formatting = None\<rparr>])"

definition saveCellMutation :: "bool \<Rightarrow> Cell list \<Rightarrow> int \<Rightarrow> int \<Rightarrow> string \<Rightarrow> string + Cell list" where
  \<comment> \<open>\<open>mutationFn\<close>: the request with its body, then \<open>response.ok\<close> decides\<close>
  "saveCellMutation ok cs r c v =
     (if \<not> ok then Inl ''Failed to save cell''
      else Inr (writeCell cs r c (mutationBody v)))"

subsection \<open>Editing\<close>

definition startEditing :: "GridState \<Rightarrow> action list" where
  "startEditing s =
     (case selectedCell s of None \<Rightarrow> []
      | Some (r, c) \<Rightarrow>
          [SetEditingValue (getCellValue (cells s) r c), EditingChange True, FocusInput])"

definition finishEditing :: "GridState \<Rightarrow> action list" where
  "finishEditing s =
     (case selectedCell s of None \<Rightarrow> []
      | Some (r, c) \<Rightarrow>
          [Mutate r c (editingValue s), EditingChange False, SetEditingValue ''''])"

definition cancelEditing :: "GridState \<Rightarrow> action list" where
  "cancelEditing s = [EditingChange False, SetEditingValue '''']"

subsection \<open>Selection operations\<close>

definition rangeCells :: "Selection \<Rightarrow> (int \<times> int) list" where
  \<comment> \<open>the two nested \<open>for\<close> loops over a selection, rows outside, columns inside\<close>
  "rangeCells sel =
     concat (map (\<lambda>r. map (\<lambda>c. (r, c)) [startCol sel..endCol sel]) [startRow sel..endRow sel])"

definition copyCell :: "Cell list \<Rightarrow> int \<Rightarrow> int \<Rightarrow> Cell" where
  "copyCell cs r c =
     (let cell = cellMap cs (cellKey r c)
      in \<lparr>cell_id = None, row = r, column = c,
          cvalue = Some (orEmpty (Option.bind cell cvalue)),
          formula = Option.bind cell formula,
          dataType = Option.bind cell dataType,
          formatting = None\<rparr>)"

definition copiedCells :: "GridState \<Rightarrow> Cell list" where
  "copiedCells s =
     (case selection s of
        Some sel \<Rightarrow> map (\<lambda>(r, c). copyCell (cells s) r c) (rangeCells sel)
      | None \<Rightarrow> (case selectedCell s of None \<Rightarrow> []
                 | Some (r, c) \<Rightarrow> [copyCell (cells s) r c]))"

definition copySelection :: "GridState \<Rightarrow> action list" where
  "copySelection s =
     (if selection s = None \<and> selectedCell s = None then []
      else [SetClipboard (copiedCells s),
            Toast ''Copied'' (numToString (int (length (copiedCells s))) @ '' cell(s) copied'')])"

definition pasteCell :: "int \<Rightarrow> int \<Rightarrow> Cell list \<Rightarrow> Cell \<Rightarrow> action list" where
  \<comment> \<open>the body of \<open>clipboard.forEach\<close>\<close>
  "pasteCell startRow' startCol' cb cell =
     (let targetRow = startRow' + (row cell - row (cb ! 0));
          targetCol = startCol' + (column cell - column (cb ! 0))
      in if targetRow \<le> ROWS \<and> targetCol \<le> COLS
         then [Mutate targetRow targetCol (orEmpty (cvalue cell))]
         else [])"

definition pasteSelection :: "GridState \<Rightarrow> action list" where
  "pasteSelection s =
     (case selectedCell s of None \<Rightarrow> []
      | Some (r, c) \<Rightarrow>
          if length (clipboard s) = 0 then []
          else concat (map (pasteCell r c (clipboard s)) (clipboard s))
               @ [Toast ''Pasted''
                    (numToString (int (length (clipboard s))) @ '' cell(s) pasted'')])"

definition clearSelection :: "GridState \<Rightarrow> action list" where
  "clearSelection s =
     (case selection s of
        Some sel \<Rightarrow> map (\<lambda>(r, c). Mutate r c '''') (rangeCells sel)
      | None \<Rightarrow> (case selectedCell s of None \<Rightarrow> []
                 | Some (r, c) \<Rightarrow> [Mutate r c '''']))"

definition cutSelection :: "GridState \<Rightarrow> action list" where
  "cutSelection s = copySelection s @ clearSelection s"

definition selectAll :: "action list" where
  "selectAll = [SetSelection (Some \<lparr>startRow = 1, startCol = 1, endRow = ROWS, endCol = COLS\<rparr>)]"

subsection \<open>Keyboard and pointer\<close>

definition handleKeyDown :: "GridState \<Rightarrow> KeyboardEvent \<Rightarrow> action list" where
  "handleKeyDown s e =
     (case selectedCell s of None \<Rightarrow> []
      | Some (r, c) \<Rightarrow>
          if \<not> isEditing s then
            (if key e = ''ArrowUp'' then
               PreventDefault # (if r > 1 then [CellSelect (r - 1) c] else [])
             else if key e = ''ArrowDown'' then
               PreventDefault # (if r < ROWS then [CellSelect (r + 1) c] else [])
             else if key e = ''ArrowLeft'' then
               PreventDefault # (if c > 1 then [CellSelect r (c - 1)] else [])
             else if key e = ''ArrowRight'' then
               PreventDefault # (if c < COLS then [CellSelect r (c + 1)] else [])
             else if key e = ''Tab'' then
               PreventDefault #
                 (if shiftKey e then (if c > 1 then [CellSelect r (c - 1)] else [])
                  else (if c < COLS then [CellSelect r (c + 1)] else []))
             else if key e = ''Enter'' then
               PreventDefault #
                 (if shiftKey e then (if r > 1 then [CellSelect (r - 1) c] else [])
                  else (if r < ROWS then [CellSelect (r + 1) c] else []))
             else if key e = ''F2'' then
               PreventDefault # startEditing s
             else if key e = ''Delete'' \<or> key e = ''Backspace'' then
               PreventDefault #
                 (if selection s \<noteq> None then clearSelection s else [Mutate r c ''''])
             else [])
            @ (if ctrlKey e \<or> metaKey e then
                 (if key e = ''c'' then PreventDefault # copySelection s
                  else if key e = ''v'' then PreventDefault # pasteSelection s
                  else if key e = ''x'' then PreventDefault # cutSelection s
                  else if key e = ''a'' then PreventDefault # selectAll
                  else [])
               else [])
          else
            (if key e = ''Enter'' then
               PreventDefault # finishEditing s
                 @ (if r < ROWS then [CellSelect (r + 1) c] else [])
             else if key e = ''Escape'' then
               PreventDefault # cancelEditing s
             else if key e = ''Tab'' then
               PreventDefault # finishEditing s
                 @ (if shiftKey e then (if c > 1 then [CellSelect r (c - 1)] else [])
                    else (if c < COLS then [CellSelect r (c + 1)] else []))
             else []))"

definition handleMouseDown :: "GridState \<Rightarrow> int \<Rightarrow> int \<Rightarrow> bool \<Rightarrow> action list" where
  \<comment> \<open>the last argument is \<open>e.shiftKey\<close>\<close>
  "handleMouseDown s r c shift =
     (if isEditing s then finishEditing s else [])
     @ [CellSelect r c]
     @ (case selectedCell s of
          Some (sr, sc) \<Rightarrow>
            if shift
            then [SetSelection (Some \<lparr>startRow = min sr r, startCol = min sc c,
                                      endRow = max sr r, endCol = max sc c\<rparr>)]
            else [SetSelection None, SetIsSelecting True, SetDragStart (Some (r, c))]
        | None \<Rightarrow> [SetSelection None, SetIsSelecting True, SetDragStart (Some (r, c))])"

definition handleMouseEnter :: "GridState \<Rightarrow> int \<Rightarrow> int \<Rightarrow> action list" where
  "handleMouseEnter s r c =
     (case dragStart s of
        Some (dr, dc) \<Rightarrow>
          if isSelecting s
          then [SetSelection (Some \<lparr>startRow = min dr r, startCol = min dc c,
                                    endRow = max dr r, endCol = max dc c\<rparr>)]
          else []
      | None \<Rightarrow> [])"

definition handleMouseUp :: "action list" where
  "handleMouseUp = [SetIsSelecting False, SetDragStart None]"

definition handleFillHandleMouseDown :: "action list" where
  "handleFillHandleMouseDown = [StopPropagation, SetIsDragging True]"

definition handleDoubleClick :: "GridState \<Rightarrow> int \<Rightarrow> int \<Rightarrow> action list" where
  \<comment> \<open>the deferred \<open>startEditing\<close> is the one of the same closure; its calls come last\<close>
  "handleDoubleClick s r c = CellSelect r c # startEditing s"

subsection \<open>Carrying out the calls of a handler\<close>

text \<open>
  Modelled from the spec: the owner of the grid is not part of the sources. Its callback
  \<open>onCellSelect\<close> makes the given cell the active cell, \<open>onEditingChange\<close> switches
  between Navigating and Editing, and a cell mutation that the persistence accepts shows
  up in the \<open>cells\<close> prop (a refused one leaves it as it was and only raises the error
  toast). The state setters act as React's do; \<open>preventDefault\<close>, \<open>stopPropagation\<close>,
  the deferred focus and the toasts do not touch the state.
\<close>

fun applyAction :: "action \<Rightarrow> GridState \<Rightarrow> GridState" where
  "applyAction PreventDefault s = s"
| "applyAction (CellSelect r c) s = s\<lparr>selectedCell := Some (r, c)\<rparr>"
| "applyAction (EditingChange b) s = s\<lparr>isEditing := b\<rparr>"
| "applyAction (Mutate r c v) s =
     (case saveCellMutation (saveOk s) (cells s) r c v of
        Inl err \<Rightarrow> s
      | Inr cs \<Rightarrow> s\<lparr>cells := cs\<rparr>)"
| "applyAction (SetEditingValue v) s = s\<lparr>editingValue := v\<rparr>"
| "applyAction (SetClipboard cb) s = s\<lparr>clipboard := cb\<rparr>"
| "applyAction (SetSelection sel) s = s\<lparr>selection := sel\<rparr>"
| "applyAction (SetIsSelecting b) s = s\<lparr>isSelecting := b\<rparr>"
| "applyAction (SetDragStart d) s = s\<lparr>dragStart := d\<rparr>"
| "applyAction (SetIsDragging b) s = s\<lparr>isDragging := b\<rparr>"
| "applyAction StopPropagation s = s"
| "applyAction FocusInput s = s"
| "applyAction (Toast t d) s = s"

definition run :: "action list \<Rightarrow> GridState \<Rightarrow> GridState" where
  "run as s = fold applyAction as s"

text \<open>The cell mutations among the calls of a handler, in the order they are issued.\<close>

fun mutationsOf :: "action list \<Rightarrow> (int \<times> int \<times> string) list" where
  "mutationsOf [] = []"
| "mutationsOf (Mutate r c v # as) = (r, c, v) # mutationsOf as"
| "mutationsOf (a # as) = mutationsOf as"

subsection \<open>A sheet to compute on\<close>

text \<open>
  A sheet that holds 1 in A1, a formula in B2 and a text in C3, with A1 active and the
  block A1:C3 selected.
\<close>

definition exampleSheet :: GridState where
  "exampleSheet =
     \<lparr>cells =
        [\<lparr>cell_id = Some 1, row = 1, column = 1, cvalue = Some ''1'', formula = None,
          dataType = Some ''number'', formatting = None\<rparr>,
         \<lparr>cell_id = Some 2, row = 2, column = 2, cvalue = Some ''=A1+1'',
          formula = Some ''=A1+1'', dataType = Some ''formula'', formatting = None\<rparr>,
         \<lparr>cell_id = Some 3, row = 3, column = 3, cvalue = Some ''hello'', formula = None,
          dataType = Some ''text'', formatting = None\<rparr>],
      selectedCell = Some (1, 1), isEditing = False,
      selection = Some \<lparr>startRow = 1, startCol = 1, endRow = 3, endCol = 3\<rparr>,
      isSelecting = False, isDragging = False, dragStart = None, editingValue = '''',
      clipboard = [], saveOk = True\<rparr>"

subsection \<open>The keydown listener and the renders\<close>

text \<open>
  The keydown listener is attached to the document by an effect whose dependency list is
  \<open>[selectedCell, isEditing, selection]\<close>. After a render the listener of that render
  replaces the attached one only when one of the three differs from the render before;
  otherwise the document keeps the listener of an earlier render, and that listener reads
  \<open>editingValue\<close>, \<open>clipboard\<close> and the cell map of the render it comes from. The
  handlers in the markup of a cell and of the input are those of the latest render.

  So the grid on the screen is three things: the latest render, the render whose closure
  the attached keydown listener holds, and the cells the persistence holds.

  Modelled from the spec: the owner and the persistence are not part of the sources. The
  owner keeps the object it passes as \<open>selectedCell\<close> from one render to the next and
  passes a new one after \<open>onCellSelect\<close>. The cells the persistence holds after a mutation
  reach the \<open>cells\<close> prop with the refetch that follows, not with the render right after
  the event.
\<close>

record Grid =
  live :: GridState
  listener :: GridState
  stored :: "Cell list"

fun replaces :: "GridState \<Rightarrow> action \<Rightarrow> bool" where
  \<comment> \<open>does the call, made on render \<open>s\<close>, give a dependency of the effect a new value\<close>
  "replaces s (CellSelect r c) = True"
| "replaces s (EditingChange b) = (b \<noteq> isEditing s)"
| "replaces s (SetSelection sel) =
     (case sel of Some x \<Rightarrow> True
      | None \<Rightarrow> (case selection s of Some y \<Rightarrow> True | None \<Rightarrow> False))"
| "replaces s a = False"

definition dispatch :: "action list \<Rightarrow> Grid \<Rightarrow> Grid" where
  \<comment> \<open>the calls of one event are carried out, then the component renders\<close>
  "dispatch as g =
     (let done = run as ((live g)\<lparr>cells := stored g\<rparr>);
          render = done\<lparr>cells := cells (live g)\<rparr>
      in \<lparr>live = render,
          listener = (if list_ex (replaces (live g)) as then render else listener g),
          stored = cells done\<rparr>)"

definition refetch :: "Grid \<Rightarrow> Grid" where
  "refetch g = g\<lparr>live := (live g)\<lparr>cells := stored g\<rparr>\<rparr>"

definition mounted :: "GridState \<Rightarrow> Grid" where
  "mounted s = \<lparr>live = s, listener = s, stored = cells s\<rparr>"

datatype event =
    KeyDown KeyboardEvent
  | InputChange string
  | MouseDown int int bool
  | MouseEnter int int
  | MouseUp
  | FillHandleMouseDown
  | DoubleClick int int
  | Refetch

fun step :: "event \<Rightarrow> Grid \<Rightarrow> Grid" where
  "step (KeyDown e) g = dispatch (handleKeyDown (listener g) e) g"
| "step (InputChange v) g = dispatch [SetEditingValue v] g"
| "step (MouseDown r c shift) g = dispatch (handleMouseDown (live g) r c shift) g"
| "step (MouseEnter r c) g = dispatch (handleMouseEnter (live g) r c) g"
| "step MouseUp g = dispatch handleMouseUp g"
| "step FillHandleMouseDown g = dispatch handleFillHandleMouseDown g"
| "step (DoubleClick r c) g = dispatch (startEditing (live g)) (dispatch [CellSelect r c] g)"
| "step Refetch g = refetch g"

definition steps :: "event list \<Rightarrow> Grid \<Rightarrow> Grid" where
  "steps es g = fold step es g"

definition plainKey :: "string \<Rightarrow> KeyboardEvent" where
  "plainKey k = \<lparr>key = k, shiftKey = False, ctrlKey = False, metaKey = False\<rparr>"

definition ctrlChord :: "string \<Rightarrow> KeyboardEvent" where
  "ctrlChord k = \<lparr>key = k, shiftKey = False, ctrlKey = True, metaKey = False\<rparr>"

text \<open>The example sheet on the screen, with A1 active and no range, and with C3 active.\<close>

definition sheetAtA1 :: Grid where
  "sheetAtA1 = mounted (exampleSheet\<lparr>selection := None\<rparr>)"

definition sheetAtC3 :: Grid where
  "sheetAtC3 = mounted (exampleSheet\<lparr>selection := None, selectedCell := Some (3, 3)\<rparr>)"


section \<open>RealTimeCollaboration.tsx\<close>

record User =
  uid :: int
  username :: string
  email :: string
  avatar :: "string option"

record CollaboratorCursor =
  cc_userId :: int
  cc_user :: User
  cc_row :: int
  cc_column :: int
  cc_isEditing :: bool
  cc_color :: "string option"

record CellUpdate =
  cu_userId :: int
  cu_sheetId :: int
  cu_row :: int
  cu_column :: int
  cu_value :: string
  cu_timestamp :: int

record CursorMove =
  cm_userId :: int
  cm_row :: int
  cm_column :: int
  cm_isEditing :: bool

datatype ConnectionStatus = connecting | connected | disconnected

text \<open>
  The state of the component, with the state \<open>owner\<close> that the callbacks of its props act
  on. A callback that is not passed is \<open>None\<close>.
\<close>

record 'p Channel =
  collaborators :: "int \<rightharpoonup> CollaboratorCursor"
  isConnected :: bool
  connectionStatus :: ConnectionStatus
  owner :: 'p

record 'p ChannelProps =
  onCellUpdate :: "(CellUpdate \<Rightarrow> 'p \<Rightarrow> 'p) option"
  onCollaboratorJoin :: "(User \<Rightarrow> 'p \<Rightarrow> 'p) option"
  onCollaboratorLeave :: "(int \<Rightarrow> 'p \<Rightarrow> 'p) option"

definition callOpt :: "('a \<Rightarrow> 'p \<Rightarrow> 'p) option \<Rightarrow> 'a \<Rightarrow> 'p \<Rightarrow> 'p" where
  \<comment> \<open>\<open>f?.(x)\<close>\<close>
  "callOpt f x p = (case f of None \<Rightarrow> p | Some g \<Rightarrow> g x p)"

definition CURSOR_COLORS :: "string list" where
  "CURSOR_COLORS =
     [''#FF6B6B'', ''#4ECDC4'', ''#45B7D1'', ''#FFA07A'', ''#98D8C8'',
      ''#F7DC6F'', ''#BB8FCE'', ''#85C1E9'', ''#F8C471'', ''#82E0AA'']"

definition getUserColor :: "int \<Rightarrow> string option" where
  \<comment> \<open>an index below zero reads \<open>undefined\<close>\<close>
  "getUserColor userId =
     (let i = jsRem userId (int (length CURSOR_COLORS))
      in if 0 \<le> i then Some (CURSOR_COLORS ! nat i) else None)"

definition handleCollaboratorJoin :: "'p ChannelProps \<Rightarrow> User \<Rightarrow> 'p Channel \<Rightarrow> 'p Channel" where
  "handleCollaboratorJoin props u ch =
     ch\<lparr>collaborators := (collaborators ch)(uid u \<mapsto>
           \<lparr>cc_userId = uid u, cc_user = u, cc_row = 1, cc_column = 1,
            cc_isEditing = False, cc_color = getUserColor (uid u)\<rparr>),
        owner := callOpt (onCollaboratorJoin props) u (owner ch)\<rparr>"

definition handleCollaboratorLeave :: "'p ChannelProps \<Rightarrow> int \<Rightarrow> 'p Channel \<Rightarrow> 'p Channel" where
  "handleCollaboratorLeave props userId ch =
     ch\<lparr>collaborators := (collaborators ch)(userId := None),
        owner := callOpt (onCollaboratorLeave props) userId (owner ch)\<rparr>"

definition handleCursorMove :: "User \<Rightarrow> CursorMove \<Rightarrow> 'p Channel \<Rightarrow> 'p Channel" where
  "handleCursorMove user d ch =
     (if cm_userId d = uid user then ch
      else (case collaborators ch (cm_userId d) of
              None \<Rightarrow> ch
            | Some collaborator \<Rightarrow>
                ch\<lparr>collaborators := (collaborators ch)(cm_userId d \<mapsto>
                      collaborator\<lparr>cc_row := cm_row d, cc_column := cm_column d,
                                   cc_isEditing := cm_isEditing d\<rparr>)\<rparr>))"

definition handleCellUpdate :: "'p ChannelProps \<Rightarrow> User \<Rightarrow> CellUpdate \<Rightarrow> 'p Channel \<Rightarrow> 'p Channel" where
  "handleCellUpdate props user d ch =
     (if cu_userId d = uid user then ch
      else ch\<lparr>owner := callOpt (onCellUpdate props) d (owner ch)\<rparr>)"

definition handleConnectionStatus :: "ConnectionStatus \<Rightarrow> 'p Channel \<Rightarrow> 'p Channel" where
  "handleConnectionStatus status ch =
     ch\<lparr>connectionStatus := status, isConnected := (status = connected)\<rparr>"

definition broadcastCellUpdate :: "User \<Rightarrow> int \<Rightarrow> int \<Rightarrow> int \<Rightarrow> string \<Rightarrow> int \<Rightarrow> CellUpdate" where
  \<comment> \<open>the \<open>cell:update\<close> message emitted for a local edit; the last argument is \<open>Date.now()\<close>\<close>
  "broadcastCellUpdate user sheetId r c v now =
     \<lparr>cu_userId = uid user, cu_sheetId = sheetId, cu_row = r, cu_column = c,
      cu_value = v, cu_timestamp = now\<rparr>"

text \<open>The bounds of the default grid, as the specification words them.\<close>

definition inBounds :: "int \<Rightarrow> int \<Rightarrow> bool" where
  "inBounds r c = (1 \<le> r \<and> r \<le> ROWS \<and> 1 \<le> c \<and> c \<le> COLS)"

text \<open>
  Modelled from the spec: the \<open>onCellUpdate\<close> callback is passed in by the owner, which is
  not part of the sources. An accepted remote update is applied to the grid state with the
  equivalent of \<open>setCell\<close>, and no outbound event is queued for it; \<open>setCell\<close> with a row
  or a column outside the bounds is a no-op.
\<close>

definition applyCellUpdate :: "CellUpdate \<Rightarrow> Cell list \<Rightarrow> Cell list" where
  "applyCellUpdate d cs =
     (if inBounds (cu_row d) (cu_column d)
      then writeCell cs (cu_row d) (cu_column d) (mutationBody (cu_value d))
      else cs)"


section \<open>Cell keys and the cell map\<close>

text \<open>The key of a cell in the cell map determines its row and its column.\<close>

lemma digits_ne: "digits n \<noteq> []"
  by (subst digits.simps) simp

lemma digitChar_digit: "d < 10 \<Longrightarrow> isDecimalDigit (digitChar d)"
proof -
  assume "d < 10"
  then have "d \<in> {0,1,2,3,4,5,6,7,8,9}" by auto
  then show ?thesis by (auto simp: digitChar_def isDecimalDigit_def)
qed

lemma digitChar_inj: "d < 10 \<Longrightarrow> d' < 10 \<Longrightarrow> digitChar d = digitChar d' \<Longrightarrow> d = d'"
proof -
  assume a: "d < 10" "d' < 10" "digitChar d = digitChar d'"
  have "distinct ''0123456789''" by simp
  with a show ?thesis
    unfolding digitChar_def by (simp add: nth_eq_iff_index_eq)
qed

lemma digits_all: "list_all isDecimalDigit (digits n)"
proof (induction n rule: digits.induct)
  case (1 n)
  show ?case
  proof (cases "n < 10")
    case True
    then show ?thesis by (subst digits.simps) (simp add: digitChar_digit)
  next
    case False
    with 1 show ?thesis by (subst digits.simps) (simp add: digitChar_digit)
  qed
qed

lemma digits_length1: "length (digits n) = Suc 0 \<longleftrightarrow> n < 10"
  using digits_ne [of "n div 10"] by (subst digits.simps) (auto simp: Suc_le_eq)

lemma digits_inj: "digits n = digits m \<Longrightarrow> n = m"
proof (induction n arbitrary: m rule: digits.induct)
  case (1 n)
  show ?case
  proof (cases "n < 10")
    case True
    then have "length (digits m) = Suc 0" using 1(2) digits_length1 [of n] by simp
    then have m: "m < 10" by (simp add: digits_length1)
    from 1(2) True m have "[digitChar n] = [digitChar m]"
      by (subst (asm) digits.simps, subst (asm) (2) digits.simps) simp
    with True m show ?thesis by (simp add: digitChar_inj)
  next
    case False
    then have "length (digits m) \<noteq> Suc 0" using 1(2) digits_length1 [of n] by simp
    then have m: "\<not> m < 10" by (simp add: digits_length1)
    from 1(2) False m have e: "digits (n div 10) @ [digitChar (n mod 10)] = digits (m div 10) @ [digitChar (m mod 10)]"
      by (subst (asm) digits.simps, subst (asm) (2) digits.simps) simp
    then have "digits (n div 10) = digits (m div 10)" and d: "digitChar (n mod 10) = digitChar (m mod 10)"
      by simp_all
    with 1(1) False have "n div 10 = m div 10" by blast
    moreover from d have "n mod 10 = m mod 10" by (simp add: digitChar_inj)
    ultimately show ?thesis by (metis div_mult_mod_eq)
  qed
qed


lemma takeWhile_sep:
  assumes "list_all P xs" "\<not> P a"
  shows "takeWhile P (xs @ a # r) = xs" "dropWhile P (xs @ a # r) = a # r"
  using assms by (induction xs) auto

lemma minus_not_digit: "\<not> isDecimalDigit CHR ''-''"
  by (simp add: isDecimalDigit_def)

lemma numToString_inj: "numToString i = numToString j \<Longrightarrow> i = j"
proof -
  assume e: "numToString i = numToString j"
  have hd_digit: "isDecimalDigit (hd (digits n))" for n
    using digits_ne [of n] digits_all [of n] by (cases "digits n") simp_all
  show ?thesis
  proof (cases "i < 0"; cases "j < 0")
    assume "i < 0" "j < 0"
    with e have "nat (- i) = nat (- j)" by (simp add: numToString_def digits_inj)
    with \<open>i < 0\<close> \<open>j < 0\<close> show ?thesis by simp
  next
    assume "i < 0" "\<not> j < 0"
    with e have "CHR ''-'' # digits (nat (- i)) = digits (nat j)" by (simp add: numToString_def)
    then have "hd (digits (nat j)) = CHR ''-''" by (metis list.sel(1))
    with hd_digit [of "nat j"] show ?thesis by (simp add: minus_not_digit)
  next
    assume "\<not> i < 0" "j < 0"
    with e have "CHR ''-'' # digits (nat (- j)) = digits (nat i)" by (simp add: numToString_def)
    then have "hd (digits (nat i)) = CHR ''-''" by (metis list.sel(1))
    with hd_digit [of "nat i"] show ?thesis by (simp add: minus_not_digit)
  next
    assume "\<not> i < 0" "\<not> j < 0"
    with e have "nat i = nat j" by (simp add: numToString_def digits_inj)
    with \<open>\<not> i < 0\<close> \<open>\<not> j < 0\<close> show ?thesis by simp
  qed
qed

lemma cellKey_inj: "cellKey r c = cellKey r' c' \<longleftrightarrow> r = r' \<and> c = c'"
proof
  assume e: "cellKey r c = cellKey r' c'"
  define strip where "strip = (\<lambda>s. if s \<noteq> [] \<and> hd s = CHR ''-'' then tl s else s)"
  have hd_digit: "isDecimalDigit (hd (digits n))" for n
    using digits_ne [of n] digits_all [of n] by (cases "digits n") simp_all
  have neg: "(hd (cellKey i j) = CHR ''-'') = (i < 0)" for i j
    using hd_digit [of "nat i"] digits_ne [of "nat i"]
    by (auto simp: cellKey_def numToString_def hd_append minus_not_digit)
  have st: "strip (cellKey i j) = digits (nat \<bar>i\<bar>) @ CHR ''-'' # numToString j" for i j
    using hd_digit [of "nat i"] digits_ne [of "nat i"]
    by (cases "i < 0") (auto simp: strip_def cellKey_def numToString_def hd_append minus_not_digit abs_if)
  from e have s: "(r < 0) = (r' < 0)" using neg by metis
  from e have "strip (cellKey r c) = strip (cellKey r' c')" by simp
  then have k: "digits (nat \<bar>r\<bar>) @ CHR ''-'' # numToString c = digits (nat \<bar>r'\<bar>) @ CHR ''-'' # numToString c'"
    by (simp add: st)
  have "takeWhile isDecimalDigit (digits (nat \<bar>r\<bar>) @ CHR ''-'' # numToString c) = digits (nat \<bar>r\<bar>)"
    and "takeWhile isDecimalDigit (digits (nat \<bar>r'\<bar>) @ CHR ''-'' # numToString c') = digits (nat \<bar>r'\<bar>)"
    by (simp_all add: takeWhile_sep digits_all minus_not_digit)
  with k have d: "digits (nat \<bar>r\<bar>) = digits (nat \<bar>r'\<bar>)" by simp
  then have "nat \<bar>r\<bar> = nat \<bar>r'\<bar>" by (rule digits_inj)
  with s have "r = r'" by (simp add: abs_if split: if_splits)
  moreover from k d have "numToString c = numToString c'" by simp
  then have "c = c'" by (rule numToString_inj)
  ultimately show "r = r' \<and> c = c'" by simp
qed simp

text \<open>Reading the cell map after a write.\<close>

lemma cellMap_Nil: "cellMap [] = Map.empty"
  by (simp add: cellMap_def)

lemma cellMap_snoc: "cellMap (cs @ [cell]) = (cellMap cs)(cellKey (row cell) (column cell) \<mapsto> cell)"
  by (simp add: cellMap_def)

lemma cellMap_Some: "cellMap cs k = Some cell \<Longrightarrow> cell \<in> set cs \<and> cellKey (row cell) (column cell) = k"
  by (induction cs rule: rev_induct) (auto simp: cellMap_Nil cellMap_snoc split: if_splits)

lemma cellMap_None: "cellMap cs (cellKey r c) = None \<longleftrightarrow> \<not> list_ex (\<lambda>cell. row cell = r \<and> column cell = c) cs"
  by (induction cs rule: rev_induct) (auto simp: cellMap_Nil cellMap_snoc cellKey_inj)

lemma cellMap_map:
  assumes "\<And>cell. row (g cell) = row cell \<and> column (g cell) = column cell"
  shows "cellMap (map g cs) k = map_option g (cellMap cs k)"
  by (induction cs rule: rev_induct) (simp_all add: cellMap_Nil cellMap_snoc assms)

lemma cellMap_writeCell_same:
  "\<exists>cell. cellMap (writeCell cs r c b) (cellKey r c) = Some cell \<and> row cell = r \<and> column cell = c \<and>
     cvalue cell = Some (b_value b) \<and> formula cell = b_formula b \<and> dataType cell = Some (b_dataType b)"
proof (cases "list_ex (\<lambda>cell. row cell = r \<and> column cell = c) cs")
  case True
  then obtain cell0 where c0: "cellMap cs (cellKey r c) = Some cell0"
    using cellMap_None [of cs r c] by auto
  then have rc: "row cell0 = r \<and> column cell0 = c"
    using cellMap_Some [OF c0] by (simp add: cellKey_inj)
  let ?g = "\<lambda>cell. if row cell = r \<and> column cell = c
                        then cell\<lparr>cvalue := Some (b_value b), formula := b_formula b,
                                  dataType := Some (b_dataType b)\<rparr>
                        else cell"
  have "cellMap (map ?g cs) (cellKey r c) = map_option ?g (cellMap cs (cellKey r c))"
    by (rule cellMap_map) simp
  with True c0 rc show ?thesis by (simp add: writeCell_def)
next
  case False
  then show ?thesis by (simp add: writeCell_def cellMap_snoc)
qed

lemma cellMap_writeCell_other:
  assumes "(r', c') \<noteq> (r, c)"
  shows "cellMap (writeCell cs r c b) (cellKey r' c') = cellMap cs (cellKey r' c')"
proof (cases "list_ex (\<lambda>cell. row cell = r \<and> column cell = c) cs")
  case True
  let ?g = "\<lambda>cell. if row cell = r \<and> column cell = c
                        then cell\<lparr>cvalue := Some (b_value b), formula := b_formula b,
                                  dataType := Some (b_dataType b)\<rparr>
                        else cell"
  have m: "cellMap (map ?g cs) (cellKey r' c') = map_option ?g (cellMap cs (cellKey r' c'))"
    by (rule cellMap_map) simp
  show ?thesis
  proof (cases "cellMap cs (cellKey r' c')")
    case None
    with m True show ?thesis by (simp add: writeCell_def)
  next
    case (Some cell0)
    then have "row cell0 = r' \<and> column cell0 = c'"
      using cellMap_Some [OF Some] by (simp add: cellKey_inj)
    with assms have "?g cell0 = cell0" by auto
    with m True Some show ?thesis by (simp add: writeCell_def)
  qed
next
  case False
  with assms show ?thesis by (auto simp: writeCell_def cellMap_snoc cellKey_inj)
qed

lemma orEmpty_Some: "orEmpty (Some v) = v"
  by (simp add: orEmpty_def)

lemma getCellValue_writeCell_same: "getCellValue (writeCell cs r c b) r c = b_value b"
  using cellMap_writeCell_same [of cs r c b] by (auto simp: getCellValue_def orEmpty_Some)

lemma getCellValue_writeCell_other:
  "(r', c') \<noteq> (r, c) \<Longrightarrow> getCellValue (writeCell cs r c b) r' c' = getCellValue cs r' c'"
  by (simp add: getCellValue_def cellMap_writeCell_other)

lemma getCellValue_writeCell:
  "getCellValue (writeCell cs r c b) r' c' = (if r' = r \<and> c' = c then b_value b else getCellValue cs r' c')"
  using getCellValue_writeCell_same getCellValue_writeCell_other by auto


section \<open>The collaboration channel\<close>

text \<open>
  C1. An inbound cell update that carries the local user's id is discarded: the handler
  returns before the owner's callback is reached, so nothing at all changes. In particular,
  when the message emitted for a local edit comes back from the relay, the grid stays as
  the local write left it.
\<close>

theorem handleCellUpdate_own_discarded:
  assumes "cu_userId d = uid user"
  shows "handleCellUpdate props user d ch = ch \<and>
         handleCellUpdate gprops user (broadcastCellUpdate user sheetId r c v now)
             (gch\<lparr>owner := run [Mutate r c v] (owner gch)\<rparr>)
           = gch\<lparr>owner := run [Mutate r c v] (owner gch)\<rparr>"
  using assms by (simp add: handleCellUpdate_def broadcastCellUpdate_def)

theorem handleCellUpdate_own_discarded_witness:
  "cu_userId \<lparr>cu_userId = 7, cu_sheetId = 1, cu_row = 2, cu_column = 3, cu_value = ''hello'',
              cu_timestamp = 100\<rparr>
     = uid \<lparr>uid = 7, username = ''ann'', email = ''ann@example.org'', avatar = None\<rparr> \<and>
   owner (handleCellUpdate
       \<lparr>onCellUpdate = Some applyCellUpdate, onCollaboratorJoin = None,
        onCollaboratorLeave = None\<rparr>
       \<lparr>uid = 7, username = ''ann'', email = ''ann@example.org'', avatar = None\<rparr>
       \<lparr>cu_userId = 7, cu_sheetId = 1, cu_row = 2, cu_column = 3, cu_value = ''hello'',
        cu_timestamp = 100\<rparr>
       \<lparr>collaborators = Map.empty, isConnected = True, connectionStatus = connected,
        owner = writeCell [] 2 3 (mutationBody ''hello'')\<rparr>)
     = writeCell [] 2 3 (mutationBody ''hello'')"
  using handleCellUpdate_own_discarded [where
       d = "\<lparr>cu_userId = 7, cu_sheetId = 1, cu_row = 2, cu_column = 3, cu_value = ''hello'',
             cu_timestamp = 100\<rparr>"
       and user = "\<lparr>uid = 7, username = ''ann'', email = ''ann@example.org'', avatar = None\<rparr>"
       and props = "\<lparr>onCellUpdate = Some applyCellUpdate, onCollaboratorJoin = None,
                    onCollaboratorLeave = None\<rparr>"
       and ch = "\<lparr>collaborators = Map.empty, isConnected = True, connectionStatus = connected,
                 owner = writeCell [] 2 3 (mutationBody ''hello'')\<rparr>"]
  by simp

text \<open>
  C2. Two cell updates of a remote peer for the same cell of the grid are handed to the
  owner's callback one after the other in the order of delivery; the handler never looks
  at the timestamps. With the callback that applies an update to the grid, the cell ends
  with the value of the update delivered second, whatever the two timestamps are (100
  then 50 included).
\<close>

theorem handleCellUpdate_delivery_order:
  assumes "cu_userId e1 \<noteq> uid user" and "cu_userId e2 \<noteq> uid user"
    and "cu_row e2 = cu_row e1" and "cu_column e2 = cu_column e1"
    and "inBounds (cu_row e1) (cu_column e1)"
  shows "owner (handleCellUpdate props user e2 (handleCellUpdate props user e1 ch))
           = callOpt (onCellUpdate props) e2 (callOpt (onCellUpdate props) e1 (owner ch)) \<and>
         (onCellUpdate gprops = Some applyCellUpdate \<longrightarrow>
            getCellValue
              (owner (handleCellUpdate gprops user e2 (handleCellUpdate gprops user e1 gch)))
              (cu_row e1) (cu_column e1) = cu_value e2)"
  using assms
  by (simp add: handleCellUpdate_def callOpt_def applyCellUpdate_def
        getCellValue_writeCell_same mutationBody_def)

theorem handleCellUpdate_delivery_order_witness:
  "inBounds 2 3 \<and>
   getCellValue
     (owner (handleCellUpdate
        \<lparr>onCellUpdate = Some applyCellUpdate, onCollaboratorJoin = None,
         onCollaboratorLeave = None\<rparr>
        \<lparr>uid = 1, username = ''ann'', email = ''ann@example.org'', avatar = None\<rparr>
        \<lparr>cu_userId = 2, cu_sheetId = 1, cu_row = 2, cu_column = 3, cu_value = ''second'',
         cu_timestamp = 50\<rparr>
        (handleCellUpdate
           \<lparr>onCellUpdate = Some applyCellUpdate, onCollaboratorJoin = None,
            onCollaboratorLeave = None\<rparr>
           \<lparr>uid = 1, username = ''ann'', email = ''ann@example.org'', avatar = None\<rparr>
           \<lparr>cu_userId = 2, cu_sheetId = 1, cu_row = 2, cu_column = 3, cu_value = ''first'',
            cu_timestamp = 100\<rparr>
           \<lparr>collaborators = Map.empty, isConnected = True, connectionStatus = connected,
            owner = []\<rparr>)))
     2 3 = ''second''"
proof -
  have b: "inBounds 2 3" by (simp add: inBounds_def ROWS_def COLS_def)
  from b handleCellUpdate_delivery_order [where
       ?e1.0 = "\<lparr>cu_userId = 2, cu_sheetId = 1, cu_row = 2, cu_column = 3,
                 cu_value = ''first'', cu_timestamp = 100\<rparr>"
       and ?e2.0 = "\<lparr>cu_userId = 2, cu_sheetId = 1, cu_row = 2, cu_column = 3,
                    cu_value = ''second'', cu_timestamp = 50\<rparr>"
       and user = "\<lparr>uid = 1, username = ''ann'', email = ''ann@example.org'', avatar = None\<rparr>"
       and gprops = "\<lparr>onCellUpdate = Some applyCellUpdate, onCollaboratorJoin = None,
                     onCollaboratorLeave = None\<rparr>"
       and gch = "\<lparr>collaborators = Map.empty, isConnected = True,
                  connectionStatus = connected, owner = []\<rparr>"
       and props = "\<lparr>onCellUpdate = Some applyCellUpdate, onCollaboratorJoin = None,
                    onCollaboratorLeave = None\<rparr>"
       and ch = "\<lparr>collaborators = Map.empty, isConnected = True,
                 connectionStatus = connected, owner = []\<rparr>", THEN conjunct2]
  show ?thesis by simp
qed




text \<open>
  C10. A cursor move of a remote user who has no entry in the Presence map leaves the
  channel as it is. No handler but the join handler ever adds a key to the Presence map:
  a cursor move, a cell update and a connection status keep the keys, a leave removes one.
  A join puts the user at row 1, column 1, not editing.
\<close>

theorem cursor_move_never_creates_entry:
  "(cm_userId d \<noteq> uid user \<and> collaborators ch (cm_userId d) = None \<longrightarrow>
      handleCursorMove user d ch = ch) \<and>
   dom (collaborators (handleCursorMove user d ch)) = dom (collaborators ch) \<and>
   dom (collaborators (handleCellUpdate props user u ch)) = dom (collaborators ch) \<and>
   dom (collaborators (handleConnectionStatus st ch)) = dom (collaborators ch) \<and>
   dom (collaborators (handleCollaboratorLeave props k ch)) = dom (collaborators ch) - {k} \<and>
   dom (collaborators (handleCollaboratorJoin props w ch))
     = insert (uid w) (dom (collaborators ch)) \<and>
   collaborators (handleCollaboratorJoin props w ch) (uid w) =
     Some \<lparr>cc_userId = uid w, cc_user = w, cc_row = 1, cc_column = 1, cc_isEditing = False,
           cc_color = getUserColor (uid w)\<rparr>"
  by (auto simp: handleCursorMove_def handleCellUpdate_def handleConnectionStatus_def
        handleCollaboratorLeave_def handleCollaboratorJoin_def split: option.splits)

theorem cursor_move_never_creates_entry_witness:
  "handleCursorMove
       \<lparr>uid = 1, username = ''ann'', email = ''ann@example.org'', avatar = None\<rparr>
       \<lparr>cm_userId = 9, cm_row = 5, cm_column = 4, cm_isEditing = True\<rparr>
       \<lparr>collaborators = [2 \<mapsto> \<lparr>cc_userId = 2,
            cc_user = \<lparr>uid = 2, username = ''bob'', email = ''bob@example.org'', avatar = None\<rparr>,
            cc_row = 3, cc_column = 3, cc_isEditing = False, cc_color = Some ''#45B7D1''\<rparr>],
        isConnected = True, connectionStatus = connected, owner = ([] :: Cell list)\<rparr>
   = \<lparr>collaborators = [2 \<mapsto> \<lparr>cc_userId = 2,
            cc_user = \<lparr>uid = 2, username = ''bob'', email = ''bob@example.org'', avatar = None\<rparr>,
            cc_row = 3, cc_column = 3, cc_isEditing = False, cc_color = Some ''#45B7D1''\<rparr>],
        isConnected = True, connectionStatus = connected, owner = ([] :: Cell list)\<rparr>"
  using cursor_move_never_creates_entry [where
       user = "\<lparr>uid = 1, username = ''ann'', email = ''ann@example.org'', avatar = None\<rparr>"
       and d = "\<lparr>cm_userId = 9, cm_row = 5, cm_column = 4, cm_isEditing = True\<rparr>"
       and ch = "\<lparr>collaborators = [2 \<mapsto> \<lparr>cc_userId = 2,
            cc_user = \<lparr>uid = 2, username = ''bob'', email = ''bob@example.org'', avatar = None\<rparr>,
            cc_row = 3, cc_column = 3, cc_isEditing = False, cc_color = Some ''#45B7D1''\<rparr>],
        isConnected = True, connectionStatus = connected, owner = ([] :: Cell list)\<rparr>"]
  by simp


section \<open>The grid\<close>

subsection \<open>Writing a cell and reading it back\<close>

lemma numeric_42: "isStringNumericLiteral ''42''"
  by (simp add: isStringNumericLiteral_def trimString_def isStrWhiteSpaceChar_def
      isStrDecimalLiteral_def isStrUnsignedDecimalLiteral_def isDecimalDigit_def)

lemma not_numeric_hello: "\<not> isStringNumericLiteral ''hello''"
  by (simp add: isStringNumericLiteral_def trimString_def isStrWhiteSpaceChar_def
      isStrDecimalLiteral_def isStrUnsignedDecimalLiteral_def isDecimalDigit_def
      isNonDecimalIntegerLiteral_def)

text \<open>
  C4. For a cell inside the grid, a cell mutation that the persistence accepts followed by
  a read gives back the written value, and the stored cell carries the data type inferred
  from the value: \<open>formula\<close>, with the formula field set to the value, when the value
  starts with \<open>=\<close>; otherwise \<open>number\<close> when the value converts to a number; otherwise
  \<open>text\<close>.
\<close>

theorem setCell_then_getCell:
  assumes "inBounds r c"
  shows "\<exists>cs' cell.
           saveCellMutation True cs r c v = Inr cs' \<and>
           getCellValue cs' r c = v \<and>
           cellMap cs' (cellKey r c) = Some cell \<and>
           row cell = r \<and> column cell = c \<and>
           cvalue cell = Some v \<and>
           dataType cell = Some (if startsWith v ''='' then ''formula''
                                 else if isStringNumericLiteral v then ''number''
                                 else ''text'') \<and>
           formula cell = (if startsWith v ''='' then Some v else None)"
proof -
  obtain cell where c: "cellMap (writeCell cs r c (mutationBody v)) (cellKey r c) = Some cell"
      "row cell = r" "column cell = c"
      "cvalue cell = Some (b_value (mutationBody v))" "formula cell = b_formula (mutationBody v)"
      "dataType cell = Some (b_dataType (mutationBody v))"
    using cellMap_writeCell_same [of cs r c "mutationBody v"] by blast
  have "getCellValue (writeCell cs r c (mutationBody v)) r c = v"
    by (simp add: getCellValue_writeCell_same mutationBody_def)
  with c show ?thesis
    by (simp add: saveCellMutation_def mutationBody_def isNaN_Number_def)
qed

theorem setCell_then_getCell_witness:
  "inBounds 2 3 \<and>
   (\<exists>cs' cell. saveCellMutation True [] 2 3 ''42'' = Inr cs' \<and>
       getCellValue cs' 2 3 = ''42'' \<and> cellMap cs' (cellKey 2 3) = Some cell \<and>
       dataType cell = Some ''number'' \<and> formula cell = None) \<and>
   (\<exists>cs' cell. saveCellMutation True [] 2 3 ''=A1+1'' = Inr cs' \<and>
       getCellValue cs' 2 3 = ''=A1+1'' \<and> cellMap cs' (cellKey 2 3) = Some cell \<and>
       dataType cell = Some ''formula'' \<and> formula cell = Some ''=A1+1'') \<and>
   (\<exists>cs' cell. saveCellMutation True [] 2 3 ''hello'' = Inr cs' \<and>
       getCellValue cs' 2 3 = ''hello'' \<and> cellMap cs' (cellKey 2 3) = Some cell \<and>
       dataType cell = Some ''text'' \<and> formula cell = None)"
proof -
  have b: "inBounds 2 3" by (simp add: inBounds_def ROWS_def COLS_def)
  show ?thesis
    using b setCell_then_getCell [OF b, of "[]" "''42''"]
      setCell_then_getCell [OF b, of "[]" "''=A1+1''"]
      setCell_then_getCell [OF b, of "[]" "''hello''"]
    by (simp add: startsWith_def numeric_42 not_numeric_hello) blast
qed

subsection \<open>The mutations a handler issues\<close>

lemma mutationsOf_append: "mutationsOf (as @ bs) = mutationsOf as @ mutationsOf bs"
  by (induction as rule: mutationsOf.induct) simp_all

lemma mutationsOf_concat: "mutationsOf (concat xss) = concat (map mutationsOf xss)"
  by (induction xss) (simp_all add: mutationsOf_append)

lemma mutationsOf_map_Mutate:
  "mutationsOf (map (\<lambda>(r, c). Mutate r c (f r c)) ps) = map (\<lambda>(r, c). (r, c, f r c)) ps"
  by (induction ps) auto

lemma mutationsOf_copySelection: "mutationsOf (copySelection s) = []"
  by (simp add: copySelection_def)

lemma mutationsOf_clearSelection:
  "mutationsOf (clearSelection s) =
     (case selection s of
        Some sel \<Rightarrow> map (\<lambda>(r, c). (r, c, '''')) (rangeCells sel)
      | None \<Rightarrow> (case selectedCell s of None \<Rightarrow> [] | Some (r, c) \<Rightarrow> [(r, c, '''')]))"
  by (simp add: clearSelection_def mutationsOf_map_Mutate split: option.splits)

lemma concat_map_if: "concat (map (\<lambda>x. if P x then [f x] else []) xs) = map f (filter P xs)"
  by (induction xs) simp_all

lemma mutationsOf_pasteSelection:
  assumes "selectedCell s = Some (ar, ac)"
  shows "mutationsOf (pasteSelection s) =
           map (\<lambda>cell. (ar + (row cell - row (clipboard s ! 0)),
                        ac + (column cell - column (clipboard s ! 0)), orEmpty (cvalue cell)))
             (filter (\<lambda>cell. ar + (row cell - row (clipboard s ! 0)) \<le> ROWS \<and>
                             ac + (column cell - column (clipboard s ! 0)) \<le> COLS)
                (clipboard s))"
proof -
  have "mutationsOf \<circ> pasteCell ar ac (clipboard s) =
      (\<lambda>cell. if ar + (row cell - row (clipboard s ! 0)) \<le> ROWS \<and>
                  ac + (column cell - column (clipboard s ! 0)) \<le> COLS
               then [(ar + (row cell - row (clipboard s ! 0)),
                      ac + (column cell - column (clipboard s ! 0)), orEmpty (cvalue cell))]
               else [])"
    by (auto simp: pasteCell_def Let_def fun_eq_iff)
  then show ?thesis
    using assms
    by (simp add: pasteSelection_def mutationsOf_append mutationsOf_concat concat_map_if)
qed

subsection \<open>Ranges and the clipboard\<close>

lemma set_rangeCells:
  "set (rangeCells sel) =
     {(r, c). startRow sel \<le> r \<and> r \<le> endRow sel \<and> startCol sel \<le> c \<and> c \<le> endCol sel}"
  by (auto simp: rangeCells_def)

lemma rangeCells_first:
  assumes "rangeCells sel \<noteq> []"
  shows "rangeCells sel ! 0 = (startRow sel, startCol sel)"
proof -
  from assms obtain p where "p \<in> set (rangeCells sel)" by (cases "rangeCells sel") auto
  then have le: "startRow sel \<le> endRow sel" "startCol sel \<le> endCol sel"
    by (auto simp: set_rangeCells)
  have "[startRow sel..endRow sel] = startRow sel # [startRow sel + 1..endRow sel]"
    and "[startCol sel..endCol sel] = startCol sel # [startCol sel + 1..endCol sel]"
    using le by (simp_all add: upto_rec1)
  then show ?thesis by (simp add: rangeCells_def)
qed

lemma copyCell_fields:
  "row (copyCell cs r c) = r" "column (copyCell cs r c) = c"
  "cvalue (copyCell cs r c) = Some (getCellValue cs r c)"
  by (simp_all add: copyCell_def getCellValue_def Let_def)

lemma orEmpty_getCellValue: "orEmpty (Some (getCellValue cs r c)) = getCellValue cs r c"
  by (simp add: orEmpty_def)

lemma copiedCells_first:
  assumes "cell \<in> set (copiedCells s0)"
  shows "row (copiedCells s0 ! 0) \<le> row cell \<and> column (copiedCells s0 ! 0) \<le> column cell"
proof (cases "selection s0")
  case None
  with assms show ?thesis by (auto simp: copiedCells_def split: option.splits)
next
  case (Some sel)
  with assms obtain r c
    where rc: "(r, c) \<in> set (rangeCells sel)" "cell = copyCell (cells s0) r c"
    by (auto simp: copiedCells_def)
  then have ne: "rangeCells sel \<noteq> []" by auto
  then have "copiedCells s0 ! 0 = copyCell (cells s0) (startRow sel) (startCol sel)"
    using Some rangeCells_first [OF ne] by (simp add: copiedCells_def)
  with rc show ?thesis by (auto simp: copyCell_fields set_rangeCells)
qed

text \<open>
  C5. Let the clipboard be what a copy captured and let the active cell, the anchor of the
  paste, lie inside the grid. Then paste issues one cell mutation for every clipboard cell
  whose target, the anchor moved by the cell's offset from the first clipboard cell, lies
  inside the grid, in clipboard order and with the cell's value, and none for the others:
  every mutation it issues is inside the grid. With an empty clipboard paste issues no
  call at all and the state stays as it is.
\<close>

theorem paste_skips_out_of_bounds:
  assumes "clipboard s = copiedCells s0" and "selectedCell s = Some (ar, ac)"
    and "inBounds ar ac"
  shows "mutationsOf (pasteSelection s) =
           map (\<lambda>cell. (ar + (row cell - row (clipboard s ! 0)),
                        ac + (column cell - column (clipboard s ! 0)), orEmpty (cvalue cell)))
             (filter (\<lambda>cell. inBounds (ar + (row cell - row (clipboard s ! 0)))
                                      (ac + (column cell - column (clipboard s ! 0))))
                (clipboard s)) \<and>
         (\<forall>m \<in> set (mutationsOf (pasteSelection s)). inBounds (fst m) (fst (snd m))) \<and>
         (clipboard s = [] \<longrightarrow> pasteSelection s = [] \<and> run (pasteSelection s) s = s)"
proof -
  have f: "filter (\<lambda>cell. ar + (row cell - row (clipboard s ! 0)) \<le> ROWS \<and>
                          ac + (column cell - column (clipboard s ! 0)) \<le> COLS) (clipboard s)
         = filter (\<lambda>cell. inBounds (ar + (row cell - row (clipboard s ! 0)))
                                   (ac + (column cell - column (clipboard s ! 0))))
             (clipboard s)"
  proof (rule filter_cong [OF refl])
    fix cell assume "cell \<in> set (clipboard s)"
    then have "row (clipboard s ! 0) \<le> row cell \<and> column (clipboard s ! 0) \<le> column cell"
      using copiedCells_first [of cell s0] assms(1) by simp
    with assms(3)
    show "(ar + (row cell - row (clipboard s ! 0)) \<le> ROWS \<and>
           ac + (column cell - column (clipboard s ! 0)) \<le> COLS)
        = inBounds (ar + (row cell - row (clipboard s ! 0)))
                   (ac + (column cell - column (clipboard s ! 0)))"
      by (auto simp: inBounds_def)
  qed
  have m: "mutationsOf (pasteSelection s) =
           map (\<lambda>cell. (ar + (row cell - row (clipboard s ! 0)),
                        ac + (column cell - column (clipboard s ! 0)), orEmpty (cvalue cell)))
             (filter (\<lambda>cell. inBounds (ar + (row cell - row (clipboard s ! 0)))
                                      (ac + (column cell - column (clipboard s ! 0))))
                (clipboard s))"
    using mutationsOf_pasteSelection [OF assms(2)] f by simp
  have e: "clipboard s = [] \<longrightarrow> pasteSelection s = [] \<and> run (pasteSelection s) s = s"
    using assms(2) by (simp add: pasteSelection_def run_def)
  from m have "\<forall>m \<in> set (mutationsOf (pasteSelection s)). inBounds (fst m) (fst (snd m))"
    by auto
  with m e show ?thesis by blast
qed

theorem paste_skips_out_of_bounds_witness:
  "inBounds 999 1 \<and>
   mutationsOf (pasteSelection
      ((run (copySelection exampleSheet) exampleSheet)\<lparr>selectedCell := Some (999, 1)\<rparr>))
     = [(999, 1, ''1''), (999, 2, ''''), (999, 3, ''''),
        (1000, 1, ''''), (1000, 2, ''=A1+1''), (1000, 3, '''')] \<and>
   list_all (\<lambda>m. inBounds (fst m) (fst (snd m)))
     (mutationsOf (pasteSelection
        ((run (copySelection exampleSheet) exampleSheet)\<lparr>selectedCell := Some (999, 1)\<rparr>)))"
proof -
  have h1: "clipboard
      ((run (copySelection exampleSheet) exampleSheet)\<lparr>selectedCell := Some (999, 1)\<rparr>)
        = copiedCells exampleSheet"
    by (simp add: run_def copySelection_def exampleSheet_def)
  have h2: "selectedCell
      ((run (copySelection exampleSheet) exampleSheet)\<lparr>selectedCell := Some (999, 1)\<rparr>)
        = Some (999, 1)"
    by simp
  have h3: "inBounds 999 1" by (simp add: inBounds_def ROWS_def COLS_def)
  have "mutationsOf (pasteSelection
      ((run (copySelection exampleSheet) exampleSheet)\<lparr>selectedCell := Some (999, 1)\<rparr>))
     = [(999, 1, ''1''), (999, 2, ''''), (999, 3, ''''),
        (1000, 1, ''''), (1000, 2, ''=A1+1''), (1000, 3, '''')]"
    by code_simp
  with h3 paste_skips_out_of_bounds [OF h1 h2 h3] show ?thesis
    unfolding list_all_iff by blast
qed

subsection \<open>Keys\<close>

lemma handleKeyDown_editing:
  assumes "isEditing s" and "selectedCell s = Some (r, c)"
  shows "handleKeyDown s e =
     (if key e = ''Enter'' then
        [PreventDefault, Mutate r c (editingValue s), EditingChange False, SetEditingValue '''']
          @ (if r < ROWS then [CellSelect (r + 1) c] else [])
      else if key e = ''Escape'' then
        [PreventDefault, EditingChange False, SetEditingValue '''']
      else if key e = ''Tab'' then
        [PreventDefault, Mutate r c (editingValue s), EditingChange False, SetEditingValue '''']
          @ (if shiftKey e then (if c > 1 then [CellSelect r (c - 1)] else [])
             else (if c < COLS then [CellSelect r (c + 1)] else []))
      else [])"
  using assms by (simp add: handleKeyDown_def finishEditing_def cancelEditing_def)

subsection \<open>What the keydown listener holds\<close>

text \<open>
  A call that gives no dependency of the effect a new value leaves the attached listener
  where it is. Typing into the input and copying are such calls.
\<close>

lemma dispatch_keeps_listener:
  "\<not> list_ex (replaces (live g)) as \<Longrightarrow> listener (dispatch as g) = listener g"
  by (simp add: dispatch_def Let_def)

lemma typing_keeps_listener:
  "listener (step (InputChange v) g) = listener g \<and>
   editingValue (live (step (InputChange v) g)) = v"
  by (simp add: dispatch_def Let_def run_def)

lemma copy_keeps_listener:
  assumes "\<not> isEditing (listener g)" and "selectedCell (listener g) = Some (r, c)"
  shows "listener (step (KeyDown (ctrlChord ''c'')) g) = listener g \<and>
         clipboard (live (step (KeyDown (ctrlChord ''c'')) g)) = copiedCells (listener g)"
  using assms
  by (simp add: dispatch_def Let_def run_def handleKeyDown_def ctrlChord_def copySelection_def)

text \<open>
  Enter and Tab in Editing mode write the buffer of the render the listener holds, and
  Ctrl+V pastes the clipboard of that render.
\<close>

lemma commit_writes_listener_buffer:
  assumes "isEditing (listener g)" and "selectedCell (listener g) = Some (r, c)"
    and "key e = ''Enter'' \<or> key e = ''Tab''"
  shows "mutationsOf (handleKeyDown (listener g) e) = [(r, c, editingValue (listener g))]"
  using assms handleKeyDown_editing [OF assms(1,2), of e] by auto

text \<open>
  C7. The code does not keep the claim that Enter and Tab flush the edit buffer. On the
  example sheet with A1 active, F2 seeds the buffer with the cell's value 1 and attaches
  the listener of that render; typing abc changes the buffer to 1abc but attaches no new
  listener; Enter then leaves Editing with a mutation that writes 1, the seeded value, to
  A1, and after the refetch A1 reads 1. The typed text is never written.
\<close>

theorem typed_text_not_written_on_Enter:
  "isEditing (live (steps
      [KeyDown (plainKey ''F2''),
       KeyDown (plainKey ''a''), InputChange ''1a'',
       KeyDown (plainKey ''b''), InputChange ''1ab'',
       KeyDown (plainKey ''c''), InputChange ''1abc''] sheetAtA1)) \<and>
   selectedCell (live (steps
      [KeyDown (plainKey ''F2''),
       KeyDown (plainKey ''a''), InputChange ''1a'',
       KeyDown (plainKey ''b''), InputChange ''1ab'',
       KeyDown (plainKey ''c''), InputChange ''1abc''] sheetAtA1)) = Some (1, 1) \<and>
   editingValue (live (steps
      [KeyDown (plainKey ''F2''),
       KeyDown (plainKey ''a''), InputChange ''1a'',
       KeyDown (plainKey ''b''), InputChange ''1ab'',
       KeyDown (plainKey ''c''), InputChange ''1abc''] sheetAtA1)) = ''1abc'' \<and>
   handleKeyDown (listener (steps
      [KeyDown (plainKey ''F2''),
       KeyDown (plainKey ''a''), InputChange ''1a'',
       KeyDown (plainKey ''b''), InputChange ''1ab'',
       KeyDown (plainKey ''c''), InputChange ''1abc''] sheetAtA1)) (plainKey ''Enter'')
     = [PreventDefault, Mutate 1 1 ''1'', EditingChange False, SetEditingValue '''',
        CellSelect 2 1] \<and>
   isEditing (live (steps
      [KeyDown (plainKey ''F2''),
       KeyDown (plainKey ''a''), InputChange ''1a'',
       KeyDown (plainKey ''b''), InputChange ''1ab'',
       KeyDown (plainKey ''c''), InputChange ''1abc'',
       KeyDown (plainKey ''Enter''), Refetch] sheetAtA1)) = False \<and>
   getCellValue (cells (live (steps
      [KeyDown (plainKey ''F2''),
       KeyDown (plainKey ''a''), InputChange ''1a'',
       KeyDown (plainKey ''b''), InputChange ''1ab'',
       KeyDown (plainKey ''c''), InputChange ''1abc'',
       KeyDown (plainKey ''Enter''), Refetch] sheetAtA1))) 1 1 = ''1''"
  by code_simp

text \<open>
  C6. The code does not keep the claim that a copy followed by a paste at the same place
  leaves the grid as it was. On the example sheet, C3 (hello) is copied; then A1:B1 is
  selected with the pointer, which attaches a listener that holds the clipboard with C3;
  Ctrl+C copies A1:B1 but attaches no new listener; Ctrl+V, with A1 active, the top-left
  cell of the selection, then pastes the clipboard the listener holds: it writes hello to
  A1, which read 1 before.
\<close>

theorem paste_after_copy_uses_earlier_clipboard:
  "selection (live (steps
      [KeyDown (ctrlChord ''c''), MouseDown 1 1 False, MouseEnter 1 2, MouseUp,
       KeyDown (ctrlChord ''c'')] sheetAtC3))
     = Some \<lparr>startRow = 1, startCol = 1, endRow = 1, endCol = 2\<rparr> \<and>
   selectedCell (live (steps
      [KeyDown (ctrlChord ''c''), MouseDown 1 1 False, MouseEnter 1 2, MouseUp,
       KeyDown (ctrlChord ''c'')] sheetAtC3)) = Some (1, 1) \<and>
   clipboard (live (steps
      [KeyDown (ctrlChord ''c''), MouseDown 1 1 False, MouseEnter 1 2, MouseUp,
       KeyDown (ctrlChord ''c'')] sheetAtC3))
     = [\<lparr>cell_id = None, row = 1, column = 1, cvalue = Some ''1'', formula = None,
         dataType = Some ''number'', formatting = None\<rparr>,
        \<lparr>cell_id = None, row = 1, column = 2, cvalue = Some '''', formula = None,
         dataType = None, formatting = None\<rparr>] \<and>
   clipboard (listener (steps
      [KeyDown (ctrlChord ''c''), MouseDown 1 1 False, MouseEnter 1 2, MouseUp,
       KeyDown (ctrlChord ''c'')] sheetAtC3))
     = [\<lparr>cell_id = None, row = 3, column = 3, cvalue = Some ''hello'', formula = None,
         dataType = Some ''text'', formatting = None\<rparr>] \<and>
   getCellValue (cells (live (steps
      [KeyDown (ctrlChord ''c''), MouseDown 1 1 False, MouseEnter 1 2, MouseUp,
       KeyDown (ctrlChord ''c'')] sheetAtC3))) 1 1 = ''1'' \<and>
   handleKeyDown (listener (steps
      [KeyDown (ctrlChord ''c''), MouseDown 1 1 False, MouseEnter 1 2, MouseUp,
       KeyDown (ctrlChord ''c'')] sheetAtC3)) (ctrlChord ''v'')
     = [PreventDefault, Mutate 1 1 ''hello'', Toast ''Pasted'' ''1 cell(s) pasted''] \<and>
   getCellValue (cells (live (steps
      [KeyDown (ctrlChord ''c''), MouseDown 1 1 False, MouseEnter 1 2, MouseUp,
       KeyDown (ctrlChord ''c''), KeyDown (ctrlChord ''v''), Refetch] sheetAtC3))) 1 1
     = ''hello''"
  by code_simp

text \<open>
  C8. In Navigating mode a key that would take the active cell over an edge of the grid
  does nothing but suppress the browser's default: Up in row 1, Left in column 1, Down in
  row 1000, Right in column 26, Shift+Tab in column 1 and Tab in column 26 issue no cell
  selection, so the active cell stays and nothing wraps around.
\<close>

theorem navigation_clamped_at_edges:
  assumes "\<not> isEditing s" and "selectedCell s = Some (r, c)"
    and "(key e = ''ArrowUp'' \<and> r = 1) \<or> (key e = ''ArrowLeft'' \<and> c = 1) \<or>
         (key e = ''ArrowDown'' \<and> r = 1000) \<or> (key e = ''ArrowRight'' \<and> c = 26) \<or>
         (key e = ''Tab'' \<and> shiftKey e \<and> c = 1) \<or>
         (key e = ''Tab'' \<and> \<not> shiftKey e \<and> c = 26)"
  shows "handleKeyDown s e = [PreventDefault] \<and> run (handleKeyDown s e) s = s \<and>
         selectedCell (run (handleKeyDown s e) s) = Some (r, c)"
proof -
  from assms(3) consider
      (up) "key e = ''ArrowUp''" "r = 1" | (left) "key e = ''ArrowLeft''" "c = 1"
    | (down) "key e = ''ArrowDown''" "r = 1000" | (right) "key e = ''ArrowRight''" "c = 26"
    | (backtab) "key e = ''Tab''" "shiftKey e" "c = 1"
    | (tab) "key e = ''Tab''" "\<not> shiftKey e" "c = 26"
    by blast
  then have "handleKeyDown s e = [PreventDefault]"
  proof cases
    case up
    with assms(1,2) show ?thesis by (simp add: handleKeyDown_def)
  next
    case left
    with assms(1,2) show ?thesis by (simp add: handleKeyDown_def)
  next
    case down
    with assms(1,2) show ?thesis by (simp add: handleKeyDown_def ROWS_def)
  next
    case right
    with assms(1,2) show ?thesis by (simp add: handleKeyDown_def COLS_def)
  next
    case backtab
    with assms(1,2) show ?thesis by (simp add: handleKeyDown_def)
  next
    case tab
    with assms(1,2) show ?thesis by (simp add: handleKeyDown_def COLS_def)
  qed
  with assms(2) show ?thesis by (simp add: run_def)
qed

theorem navigation_clamped_at_edges_witness:
  "handleKeyDown exampleSheet
      \<lparr>key = ''ArrowUp'', shiftKey = False, ctrlKey = False, metaKey = False\<rparr>
     = [PreventDefault] \<and>
   handleKeyDown (exampleSheet\<lparr>selectedCell := Some (1000, 26)\<rparr>)
      \<lparr>key = ''ArrowDown'', shiftKey = False, ctrlKey = False, metaKey = False\<rparr>
     = [PreventDefault] \<and>
   selectedCell (run (handleKeyDown (exampleSheet\<lparr>selectedCell := Some (1000, 26)\<rparr>)
      \<lparr>key = ''Tab'', shiftKey = False, ctrlKey = False, metaKey = False\<rparr>)
      (exampleSheet\<lparr>selectedCell := Some (1000, 26)\<rparr>)) = Some (1000, 26)"
proof -
  have n1: "\<not> isEditing exampleSheet"
    and c1: "selectedCell exampleSheet = Some (1, 1)"
    and n2: "\<not> isEditing (exampleSheet\<lparr>selectedCell := Some (1000, 26)\<rparr>)"
    by (simp_all add: exampleSheet_def)
  have c2: "selectedCell (exampleSheet\<lparr>selectedCell := Some (1000, 26)\<rparr>) = Some (1000, 26)"
    by simp
  have k1: "(key \<lparr>key = ''ArrowUp'', shiftKey = False, ctrlKey = False, metaKey = False\<rparr> = ''ArrowUp'' \<and> (1::int) = 1) \<or> (key \<lparr>key = ''ArrowUp'', shiftKey = False, ctrlKey = False, metaKey = False\<rparr> = ''ArrowLeft'' \<and> (1::int) = 1) \<or>
         (key \<lparr>key = ''ArrowUp'', shiftKey = False, ctrlKey = False, metaKey = False\<rparr> = ''ArrowDown'' \<and> (1::int) = 1000) \<or> (key \<lparr>key = ''ArrowUp'', shiftKey = False, ctrlKey = False, metaKey = False\<rparr> = ''ArrowRight'' \<and> (1::int) = 26) \<or>
         (key \<lparr>key = ''ArrowUp'', shiftKey = False, ctrlKey = False, metaKey = False\<rparr> = ''Tab'' \<and> shiftKey \<lparr>key = ''ArrowUp'', shiftKey = False, ctrlKey = False, metaKey = False\<rparr> \<and> (1::int) = 1) \<or>
         (key \<lparr>key = ''ArrowUp'', shiftKey = False, ctrlKey = False, metaKey = False\<rparr> = ''Tab'' \<and> \<not> shiftKey \<lparr>key = ''ArrowUp'', shiftKey = False, ctrlKey = False, metaKey = False\<rparr> \<and> (1::int) = 26)"
    by simp
  have k2: "(key \<lparr>key = ''ArrowDown'', shiftKey = False, ctrlKey = False, metaKey = False\<rparr> = ''ArrowUp'' \<and> (1000::int) = 1) \<or> (key \<lparr>key = ''ArrowDown'', shiftKey = False, ctrlKey = False, metaKey = False\<rparr> = ''ArrowLeft'' \<and> (26::int) = 1) \<or>
         (key \<lparr>key = ''ArrowDown'', shiftKey = False, ctrlKey = False, metaKey = False\<rparr> = ''ArrowDown'' \<and> (1000::int) = 1000) \<or> (key \<lparr>key = ''ArrowDown'', shiftKey = False, ctrlKey = False, metaKey = False\<rparr> = ''ArrowRight'' \<and> (26::int) = 26) \<or>
         (key \<lparr>key = ''ArrowDown'', shiftKey = False, ctrlKey = False, metaKey = False\<rparr> = ''Tab'' \<and> shiftKey \<lparr>key = ''ArrowDown'', shiftKey = False, ctrlKey = False, metaKey = False\<rparr> \<and> (26::int) = 1) \<or>
         (key \<lparr>key = ''ArrowDown'', shiftKey = False, ctrlKey = False, metaKey = False\<rparr> = ''Tab'' \<and> \<not> shiftKey \<lparr>key = ''ArrowDown'', shiftKey = False, ctrlKey = False, metaKey = False\<rparr> \<and> (26::int) = 26)"
    by simp
  have k3: "(key \<lparr>key = ''Tab'', shiftKey = False, ctrlKey = False, metaKey = False\<rparr> = ''ArrowUp'' \<and> (1000::int) = 1) \<or> (key \<lparr>key = ''Tab'', shiftKey = False, ctrlKey = False, metaKey = False\<rparr> = ''ArrowLeft'' \<and> (26::int) = 1) \<or>
         (key \<lparr>key = ''Tab'', shiftKey = False, ctrlKey = False, metaKey = False\<rparr> = ''ArrowDown'' \<and> (1000::int) = 1000) \<or> (key \<lparr>key = ''Tab'', shiftKey = False, ctrlKey = False, metaKey = False\<rparr> = ''ArrowRight'' \<and> (26::int) = 26) \<or>
         (key \<lparr>key = ''Tab'', shiftKey = False, ctrlKey = False, metaKey = False\<rparr> = ''Tab'' \<and> shiftKey \<lparr>key = ''Tab'', shiftKey = False, ctrlKey = False, metaKey = False\<rparr> \<and> (26::int) = 1) \<or>
         (key \<lparr>key = ''Tab'', shiftKey = False, ctrlKey = False, metaKey = False\<rparr> = ''Tab'' \<and> \<not> shiftKey \<lparr>key = ''Tab'', shiftKey = False, ctrlKey = False, metaKey = False\<rparr> \<and> (26::int) = 26)"
    by simp
  from navigation_clamped_at_edges [OF n1 c1 k1] navigation_clamped_at_edges [OF n2 c2 k2]
    navigation_clamped_at_edges [OF n2 c2 k3]
  show ?thesis by blast
qed

text \<open>
  C9. The body of a cell mutation for the empty string has data type \<open>number\<close> and no
  formula, since the empty string converts to the number 0. Every mutation issued by
  clearing the selection, by cut and by Delete or Backspace in Navigating mode writes the
  empty string: one for the active cell when there is no range, one for every cell of the
  range when there is.
\<close>

theorem empty_value_is_number:
  "mutationBody '''' = \<lparr>b_value = '''', b_dataType = ''number'', b_formula = None\<rparr> \<and>
   (\<forall>m \<in> set (mutationsOf (clearSelection s)). snd (snd m) = '''') \<and>
   (\<forall>m \<in> set (mutationsOf (cutSelection s)). snd (snd m) = '''') \<and>
   (\<not> isEditing s \<and> (key e = ''Delete'' \<or> key e = ''Backspace'') \<longrightarrow>
      (\<forall>m \<in> set (mutationsOf (handleKeyDown s e)). snd (snd m) = '''')) \<and>
   (\<forall>r c. \<not> isEditing s \<and> (key e = ''Delete'' \<or> key e = ''Backspace'') \<and>
          selectedCell s = Some (r, c) \<and> selection s = None \<longrightarrow>
          mutationsOf (handleKeyDown s e) = [(r, c, '''')]) \<and>
   (\<forall>sel. selection s = Some sel \<longrightarrow>
          mutationsOf (clearSelection s) = map (\<lambda>(r, c). (r, c, '''')) (rangeCells sel) \<and>
          mutationsOf (cutSelection s) = map (\<lambda>(r, c). (r, c, '''')) (rangeCells sel))"
proof -
  have b: "mutationBody '''' = \<lparr>b_value = '''', b_dataType = ''number'', b_formula = None\<rparr>"
    by (simp add: mutationBody_def startsWith_def isNaN_Number_def isStringNumericLiteral_def
        trimString_def)
  have cl: "\<forall>m \<in> set (mutationsOf (clearSelection s)). snd (snd m) = ''''"
    by (auto simp: mutationsOf_clearSelection split: option.splits)
  have cu: "mutationsOf (cutSelection s) = mutationsOf (clearSelection s)"
    by (simp add: cutSelection_def mutationsOf_append mutationsOf_copySelection)
  have k: "mutationsOf (handleKeyDown s e) =
      (case selectedCell s of None \<Rightarrow> []
       | Some (r, c) \<Rightarrow>
           if selection s \<noteq> None then mutationsOf (clearSelection s) else [(r, c, '''')])"
    if "\<not> isEditing s" "key e = ''Delete'' \<or> key e = ''Backspace''"
    using that by (auto simp: handleKeyDown_def mutationsOf_append split: option.splits)
  show ?thesis
    using b cl cu k by (auto simp: mutationsOf_clearSelection split: option.splits)
qed

theorem empty_value_is_number_witness:
  "b_dataType (mutationBody '''') = ''number'' \<and>
   mutationsOf (handleKeyDown (exampleSheet\<lparr>selection := None\<rparr>)
      \<lparr>key = ''Delete'', shiftKey = False, ctrlKey = False, metaKey = False\<rparr>)
     = [(1, 1, '''')] \<and>
   mutationsOf (cutSelection (exampleSheet\<lparr>selection :=
        Some \<lparr>startRow = 2, startCol = 2, endRow = 3, endCol = 2\<rparr>\<rparr>))
     = [(2, 2, ''''), (3, 2, '''')]"
proof -
  have r: "rangeCells \<lparr>startRow = 2, startCol = 2, endRow = 3, endCol = 2\<rparr> = [(2, 2), (3, 2)]"
    by code_simp
  show ?thesis
    using empty_value_is_number [where s = "exampleSheet\<lparr>selection := None\<rparr>"
        and e = "\<lparr>key = ''Delete'', shiftKey = False, ctrlKey = False, metaKey = False\<rparr>"]
      empty_value_is_number [where s = "exampleSheet\<lparr>selection :=
          Some \<lparr>startRow = 2, startCol = 2, endRow = 3, endCol = 2\<rparr>\<rparr>"
        and e = "\<lparr>key = ''Delete'', shiftKey = False, ctrlKey = False, metaKey = False\<rparr>"]
    by (simp add: exampleSheet_def r)
qed

end
